theory Spec2Isabelle
  imports Complex_Main "HOL-Library.AList"
begin

section \<open>Data model\<close>

text \<open>
  The development follows \<^verbatim>\<open>electronic_structure_driver_result.py\<close>: the class
  \<^verbatim>\<open>ElectronicStructureDriverResult\<close>, a grouped property with one extra field,
  \<^verbatim>\<open>molecule\<close>. The classes it composes with (the grouped-property base, the
  property classes, \<^verbatim>\<open>Molecule\<close>, \<^verbatim>\<open>QMolecule\<close>, the HDF5 group) live in
  other modules; what is used of them is modelled from the specification and marked so.
\<close>

datatype error =
    QiskitNatureError
  | AttributeError string

text \<open>
  Class identity of the property objects: the five physical properties, the basis
  transform, the driver metadata, and any other property class, told apart by its name.
\<close>

datatype property_class =
    ElectronicEnergy
  | ParticleNumber
  | AngularMomentum
  | Magnetization
  | ElectronicDipoleMoment
  | ElectronicBasisTransform
  | DriverMetadata
  | OtherProperty string

datatype ElectronicBasis = AO | MO | SO

text \<open>
  What a property object holds. The basis transform and the metadata are built by this
  file from raw fields (lines 122 to 141); what the other classes hold is computed
  elsewhere and stays abstract (\<open>'d\<close>). \<open>'m\<close> is the type of coefficient matrices.
\<close>

datatype ('m, 'd) property_data =
    TransformData ElectronicBasis ElectronicBasis 'm 'm
  | MetadataData string string string
  | ExternalData 'd

record ('m, 'd) property =
  cls :: property_class
  data :: "('m, 'd) property_data"

text \<open>
  The legacy result, \<^verbatim>\<open>QMolecule\<close>: the fields this file reads, and \<open>other_fields\<close>
  for everything the property classes' own constructors read. \<open>'c\<close> is the type of a
  coordinate.
\<close>

record ('c, 'm, 'q) QMolecule =
  atom_symbol :: "string list"
  atom_xyz :: "'c list list"
  multiplicity :: int
  molecular_charge :: int
  mo_coeff :: 'm
  mo_coeff_b :: 'm
  origin_driver_name :: string
  origin_driver_version :: string
  origin_driver_config :: string
  other_fields :: 'q

text \<open>\<^verbatim>\<open>LegacyDriverResult = Union[QMolecule, WatsonHamiltonian]\<close>.\<close>

datatype ('c, 'm, 'q, 'w) LegacyDriverResult =
    IsQMolecule "('c, 'm, 'q) QMolecule"
  | IsWatsonHamiltonian 'w

text \<open>\<^verbatim>\<open>Molecule(geometry, multiplicity, charge)\<close>.\<close>

record 'c Molecule =
  geometry :: "(string \<times> 'c list) list"
  multiplicity :: int
  charge :: int

text \<open>
  The instance: the name and the ordered, keyed collection of the grouped-property base
  (a Python dict: an association list in insertion order), and the field
  \<^verbatim>\<open>molecule\<close>, \<open>None\<close> until it is assigned.
\<close>

record ('c, 'm, 'd) ElectronicStructureDriverResult =
  name :: string
  properties :: "(property_class \<times> ('m, 'd) property) list"
  molecule :: "'c Molecule option"

text \<open>
  Modelled from the spec: the hierarchical store (the HDF5 group object), which is not in
  this file: "a named group per instance, containing nested groups for each sub-property
  and the molecule". The members' own serialisation is delegated to them; a nested group
  is represented by the object it decodes to and is keyed by that object's class. The
  parent holds the instances' groups under their names.
\<close>

datatype ('c, 'm, 'd) HDF5Storable =
    StoredProperty "('m, 'd) property"
  | StoredMolecule "'c Molecule"

datatype h5key = PropertyGroup property_class | MoleculeGroup

type_synonym ('c, 'm, 'd) h5group = "(h5key \<times> ('c, 'm, 'd) HDF5Storable) list"

type_synonym ('c, 'm, 'd) h5parent = "(string \<times> ('c, 'm, 'd) h5group) list"

text \<open>\<^verbatim>\<open>ListOrDictType[FermionicOp]\<close>; a dict is its items in insertion order.\<close>

datatype 'op ListOrDictType =
    ListOps "'op list"
  | DictOps "(string \<times> 'op) list"

section \<open>The grouped-property base\<close>

text \<open>
  Modelled from the spec: the initialiser of the grouped-property base class
  (\<^verbatim>\<open>super().__init__(name)\<close>), which is not in this file: the collection is
  "constructed empty". Line 51 then sets \<^verbatim>\<open>molecule\<close> to \<open>None\<close>.
\<close>

definition ElectronicStructureDriverResult_init ::
  "('c, 'm, 'd) ElectronicStructureDriverResult" where
  "ElectronicStructureDriverResult_init =
     \<lparr>name = ''ElectronicStructureDriverResult'', properties = [], molecule = None\<rparr>"

text \<open>
  Modelled from the spec: \<^verbatim>\<open>add_property\<close> of the grouped-property base class, which
  is not in this file: "an ordered collection of named typed property objects, keyed by
  class identity". Storing under a key that is present replaces the value in place, a
  new key goes to the end, as in a Python dict. The argument may be \<open>None\<close>, which is
  what a legacy-conversion constructor hands over when the legacy result lacks the data
  of its property; nothing is added then.
\<close>

fun add_property ::
  "('c, 'm, 'd) ElectronicStructureDriverResult \<Rightarrow> ('m, 'd) property option
     \<Rightarrow> ('c, 'm, 'd) ElectronicStructureDriverResult" where
  "add_property self None = self"
| "add_property self (Some prop) =
     self\<lparr>properties := AList.update (cls prop) prop (properties self)\<rparr>"

text \<open>
  Modelled from the spec: \<^verbatim>\<open>get_property\<close> of the grouped-property base class, which
  is not in this file: the member stored for a class, \<open>None\<close> when there is none.
\<close>

definition get_property ::
  "('c, 'm, 'd) ElectronicStructureDriverResult \<Rightarrow> property_class \<Rightarrow> ('m, 'd) property option" where
  "get_property self c = map_of (properties self) c"

text \<open>
  Modelled from the spec: iteration over the grouped-property base class
  (\<^verbatim>\<open>iter(self)\<close>), which is not in this file: the members in the order of the
  collection.
\<close>

definition iter ::
  "('c, 'm, 'd) ElectronicStructureDriverResult \<Rightarrow> ('m, 'd) property list" where
  "iter self = map snd (properties self)"

section \<open>The hierarchical store\<close>

text \<open>
  Modelled from the spec: \<^verbatim>\<open>require_group\<close> of the store's group object, which is
  not in this file: the nested group of that name, empty when it is new.
\<close>

definition require_group :: "('k \<times> 'v list) list \<Rightarrow> 'k \<Rightarrow> 'v list" where
  "require_group parent n = (case map_of parent n of None \<Rightarrow> [] | Some grp \<Rightarrow> grp)"

text \<open>
  Modelled from the spec: \<^verbatim>\<open>to_hdf5\<close> of a member property, which is not in this
  file: it writes its own nested group into the given group.
\<close>

definition Property_to_hdf5 ::
  "('m, 'd) property \<Rightarrow> ('c, 'm, 'd) h5group \<Rightarrow> ('c, 'm, 'd) h5group" where
  "Property_to_hdf5 prop grp = AList.update (PropertyGroup (cls prop)) (StoredProperty prop) grp"

text \<open>
  Modelled from the spec: \<^verbatim>\<open>to_hdf5\<close> of \<^verbatim>\<open>Molecule\<close>, which is not in this file:
  it writes the nested group of the molecule into the given group.
\<close>

definition Molecule_to_hdf5 ::
  "'c Molecule \<Rightarrow> ('c, 'm, 'd) h5group \<Rightarrow> ('c, 'm, 'd) h5group" where
  "Molecule_to_hdf5 mol grp = AList.update MoleculeGroup (StoredMolecule mol) grp"

text \<open>
  Modelled from the spec: \<^verbatim>\<open>to_hdf5\<close> of the grouped-property base class
  (\<^verbatim>\<open>super().to_hdf5(parent)\<close>), which is not in this file: "a named group per
  instance, containing nested groups for each sub-property", written "by delegating to
  each member's own serialization".
\<close>

definition GroupedProperty_to_hdf5 ::
  "('c, 'm, 'd) ElectronicStructureDriverResult \<Rightarrow> ('c, 'm, 'd) h5parent \<Rightarrow> ('c, 'm, 'd) h5parent" where
  "GroupedProperty_to_hdf5 self parent =
     (let grp = require_group parent (name self);
          grp = foldl (\<lambda>g prop. Property_to_hdf5 prop g) grp (iter self)
      in AList.update (name self) grp parent)"

text \<open>The key of the nested group of a stored object: its class.\<close>

fun storable_class :: "('c, 'm, 'd) HDF5Storable \<Rightarrow> h5key" where
  "storable_class (StoredProperty prop) = PropertyGroup (cls prop)"
| "storable_class (StoredMolecule mol) = MoleculeGroup"

text \<open>
  Modelled from the spec: \<^verbatim>\<open>GroupedElectronicProperty.from_hdf5\<close>, which is not in
  this file: it restores the collection from the nested groups of the given group, each
  member decoded by its own class and added to a collection keyed by class identity.
\<close>

definition GroupedElectronicProperty_from_hdf5 ::
  "('c, 'm, 'd) h5group \<Rightarrow> (h5key \<times> ('c, 'm, 'd) HDF5Storable) list" where
  "GroupedElectronicProperty_from_hdf5 h5py_group =
     foldl (\<lambda>ret prop. AList.update (storable_class prop) prop ret) [] (map snd h5py_group)"

section \<open>Persistence: \<^verbatim>\<open>to_hdf5\<close> and \<^verbatim>\<open>from_hdf5\<close>\<close>

text \<open>
  Lines 58 to 68. The store is mutated in place, so the result is the raised error, if
  any, together with the parent as the call leaves it. With \<^verbatim>\<open>molecule\<close> unset, line 68
  looks \<^verbatim>\<open>to_hdf5\<close> up on \<open>None\<close> and raises \<^verbatim>\<open>AttributeError\<close>, after line 66 has
  written the members.
\<close>

definition to_hdf5 ::
  "('c, 'm, 'd) ElectronicStructureDriverResult \<Rightarrow> ('c, 'm, 'd) h5parent
     \<Rightarrow> (error + unit) \<times> ('c, 'm, 'd) h5parent" where
  "to_hdf5 self parent =
     (let parent = GroupedProperty_to_hdf5 self parent;
          grp = require_group parent (name self)
      in case molecule self of
           None \<Rightarrow> (Inl (AttributeError ''to_hdf5''), parent)
         | Some mol \<Rightarrow> (Inr (), AList.update (name self) (Molecule_to_hdf5 mol grp) parent))"

text \<open>Lines 85 to 89: the body of the loop of \<^verbatim>\<open>from_hdf5\<close>.\<close>

fun from_hdf5_step ::
  "('c, 'm, 'd) ElectronicStructureDriverResult \<Rightarrow> ('c, 'm, 'd) HDF5Storable
     \<Rightarrow> ('c, 'm, 'd) ElectronicStructureDriverResult" where
  "from_hdf5_step ret (StoredMolecule mol) = ret\<lparr>molecule := Some mol\<rparr>"
| "from_hdf5_step ret (StoredProperty prop) = add_property ret (Some prop)"

text \<open>Lines 70 to 91.\<close>

definition from_hdf5 ::
  "('c, 'm, 'd) h5group \<Rightarrow> ('c, 'm, 'd) ElectronicStructureDriverResult" where
  "from_hdf5 h5py_group =
     (let grouped_property = GroupedElectronicProperty_from_hdf5 h5py_group;
          ret = ElectronicStructureDriverResult_init
      in foldl from_hdf5_step ret (map snd grouped_property))"

text \<open>
  The values that line 87 assigns to \<^verbatim>\<open>ret.molecule\<close> while the loop of
  \<^verbatim>\<open>from_hdf5\<close> runs over the given members, in order.
\<close>

fun molecule_assignments :: "('c, 'm, 'd) HDF5Storable list \<Rightarrow> 'c Molecule list" where
  "molecule_assignments [] = []"
| "molecule_assignments (StoredMolecule mol # props) = mol # molecule_assignments props"
| "molecule_assignments (StoredProperty prop # props) = molecule_assignments props"

section \<open>The legacy adapter: \<^verbatim>\<open>from_legacy_driver_result\<close>\<close>

text \<open>
  Modelled from the spec: \<^verbatim>\<open>_validate_input_type(result, QMolecule)\<close>, which is not in
  this file: a "type-mismatch on legacy conversion input surfaces as a domain-specific
  error (kind: invalid input type)"; the docstring of the caller names it
  \<^verbatim>\<open>QiskitNatureError\<close>, raised "if a WatsonHamiltonian is provided". A result that
  passes is a \<^verbatim>\<open>QMolecule\<close>, which is what the cast of line 112 then takes it for.
\<close>

fun validate_input_type_QMolecule ::
  "('c, 'm, 'q, 'w) LegacyDriverResult \<Rightarrow> error + ('c, 'm, 'q) QMolecule" where
  "validate_input_type_QMolecule (IsQMolecule qmol) = Inr qmol"
| "validate_input_type_QMolecule (IsWatsonHamiltonian w) = Inl QiskitNatureError"

text \<open>
  Modelled from the spec: the legacy-conversion constructor of a physical property class
  (\<^verbatim>\<open>ElectronicEnergy.from_legacy_driver_result\<close> and its four siblings), which are
  not in this file: each "produces" a "typed property object" of its own class. What the
  object holds is computed by that class from the legacy result and is the parameter
  \<open>legacy\<close>; it is \<open>None\<close> where the legacy result lacks the data of the property (a
  \<^verbatim>\<open>QMolecule\<close> without dipole integrals has no dipole moment), and the constructor
  then hands \<open>None\<close> over instead of an object.
\<close>

definition property_from_legacy_driver_result ::
  "(property_class \<Rightarrow> ('c, 'm, 'q) QMolecule \<Rightarrow> 'd option) \<Rightarrow> property_class
     \<Rightarrow> ('c, 'm, 'q) QMolecule \<Rightarrow> ('m, 'd) property option" where
  "property_from_legacy_driver_result legacy c qmol =
     (case legacy c qmol of
        None \<Rightarrow> None
      | Some d \<Rightarrow> Some \<lparr>cls = c, data = ExternalData d\<rparr>)"

text \<open>
  Modelled from the spec: the initialiser of \<^verbatim>\<open>ElectronicBasisTransform\<close>, which is
  not in this file: "a basis-transform property built from raw coefficient arrays", an
  object of its class holding the arguments given.
\<close>

definition ElectronicBasisTransform_init ::
  "ElectronicBasis \<Rightarrow> ElectronicBasis \<Rightarrow> 'm \<Rightarrow> 'm \<Rightarrow> ('m, 'd) property" where
  "ElectronicBasisTransform_init initial_basis final_basis coeff_alpha coeff_beta =
     \<lparr>cls = ElectronicBasisTransform,
      data = TransformData initial_basis final_basis coeff_alpha coeff_beta\<rparr>"

text \<open>
  Modelled from the spec: the initialiser of \<^verbatim>\<open>DriverMetadata\<close>, which is not in this
  file: "provenance metadata (driver name/version/config)", an object of its class
  holding the arguments given.
\<close>

definition DriverMetadata_init :: "string \<Rightarrow> string \<Rightarrow> string \<Rightarrow> ('m, 'd) property" where
  "DriverMetadata_init program version config =
     \<lparr>cls = DriverMetadata, data = MetadataData program version config\<rparr>"

text \<open>
  Lines 128 to 131: the loop that builds the geometry. \<^verbatim>\<open>xyz * BOHR\<close> multiplies
  each coordinate of the row by the constant; the multiplication is that of the
  coordinate type.
\<close>

fun geometry_loop ::
  "'c::times \<Rightarrow> (string \<times> 'c list) list \<Rightarrow> (string \<times> 'c list) list \<Rightarrow> (string \<times> 'c list) list" where
  "geometry_loop BOHR geom [] = geom"
| "geometry_loop BOHR geom ((atom, xyz) # rest) =
     geometry_loop BOHR (geom @ [(atom, map (\<lambda>x. x * BOHR) xyz)]) rest"

text \<open>
  Lines 93 to 143. \<open>BOHR\<close> is the constant of \<^verbatim>\<open>qiskit_nature.constants\<close>, taken as a
  parameter. The deprecation decorator only emits a warning and is left out.
\<close>

definition from_legacy_driver_result ::
  "(property_class \<Rightarrow> ('c::times, 'm, 'q) QMolecule \<Rightarrow> 'd option) \<Rightarrow> 'c
     \<Rightarrow> ('c, 'm, 'q, 'w) LegacyDriverResult
     \<Rightarrow> error + ('c, 'm, 'd) ElectronicStructureDriverResult" where
  "from_legacy_driver_result legacy BOHR result =
     (case validate_input_type_QMolecule result of
        Inl e \<Rightarrow> Inl e
      | Inr qmol \<Rightarrow>
          (let ret = ElectronicStructureDriverResult_init;
               ret = add_property ret (property_from_legacy_driver_result legacy ElectronicEnergy qmol);
               ret = add_property ret (property_from_legacy_driver_result legacy ParticleNumber qmol);
               ret = add_property ret (property_from_legacy_driver_result legacy AngularMomentum qmol);
               ret = add_property ret (property_from_legacy_driver_result legacy Magnetization qmol);
               ret = add_property ret (property_from_legacy_driver_result legacy ElectronicDipoleMoment qmol);
               ret = add_property ret
                 (Some (ElectronicBasisTransform_init AO MO (mo_coeff qmol) (mo_coeff_b qmol)));
               geom = geometry_loop BOHR [] (zip (atom_symbol qmol) (atom_xyz qmol));
               ret = ret\<lparr>molecule :=
                 Some \<lparr>geometry = geom, multiplicity = QMolecule.multiplicity qmol,
                       charge = molecular_charge qmol\<rparr>\<rparr>;
               ret = add_property ret
                 (Some (DriverMetadata_init (origin_driver_name qmol) (origin_driver_version qmol)
                    (origin_driver_config qmol)))
           in Inr ret))"

section \<open>The operator collector: \<^verbatim>\<open>second_q_ops\<close>\<close>

text \<open>\<^verbatim>\<open>ops.update(other)\<close> on Python dicts: the items of \<open>other\<close> stored in order.\<close>

definition dict_update :: "('k \<times> 'v) list \<Rightarrow> ('k \<times> 'v) list \<Rightarrow> ('k \<times> 'v) list" where
  "dict_update ops other = foldl (\<lambda>d (k, v). AList.update k v d) ops other"

text \<open>The fixed list of classes of lines 157 to 163.\<close>

definition second_q_ops_classes :: "property_class list" where
  "second_q_ops_classes =
     [ElectronicEnergy, ParticleNumber, AngularMomentum, Magnetization, ElectronicDipoleMoment]"

text \<open>
  Lines 145 to 175. The process-wide flag \<^verbatim>\<open>settings.dict_aux_operators\<close> is the
  parameter \<open>dict_aux_operators\<close>. What the members answer is not in this file and is
  taken as parameters: \<open>isSQP prop\<close> for \<^verbatim>\<open>isinstance(prop, SecondQuantizedProperty)\<close>,
  and \<open>opsL prop\<close> and \<open>opsD prop\<close> for what \<^verbatim>\<open>prop.second_q_ops()\<close> returns when the
  flag selects lists and when it selects dicts.
\<close>

definition second_q_ops ::
  "(('m, 'd) property \<Rightarrow> bool) \<Rightarrow> (('m, 'd) property \<Rightarrow> 'op list)
     \<Rightarrow> (('m, 'd) property \<Rightarrow> (string \<times> 'op) list) \<Rightarrow> bool
     \<Rightarrow> ('c, 'm, 'd) ElectronicStructureDriverResult \<Rightarrow> 'op ListOrDictType" where
  "second_q_ops isSQP opsL opsD dict_aux_operators self =
     (if \<not> dict_aux_operators then
        ListOps (foldl (\<lambda>ops c.
                   case get_property self c of
                     None \<Rightarrow> ops
                   | Some prop \<Rightarrow> if \<not> isSQP prop then ops else ops @ opsL prop)
                 [] second_q_ops_classes)
      else
        DictOps (foldl (\<lambda>ops prop. if \<not> isSQP prop then ops else dict_update ops (opsD prop))
                 [] (iter self)))"

section \<open>Derived notions\<close>

text \<open>
  The members that the loop of \<^verbatim>\<open>from_hdf5\<close> passes to \<^verbatim>\<open>add_property\<close> (line 89) when
  it runs over the given members, in order.
\<close>

fun stored_properties :: "('c, 'm, 'd) HDF5Storable list \<Rightarrow> ('m, 'd) property list" where
  "stored_properties [] = []"
| "stored_properties (StoredMolecule mol # props) = stored_properties props"
| "stored_properties (StoredProperty prop # props) = prop # stored_properties props"

text \<open>
  The representation invariant of the collection: as in a dict filled by
  \<^verbatim>\<open>add_property\<close>, every key occurs once and is the class of the member stored under it.
\<close>

definition well_formed :: "('c, 'm, 'd) ElectronicStructureDriverResult \<Rightarrow> bool" where
  "well_formed self =
     (distinct (map fst (properties self)) \<and> list_all (\<lambda>(c, prop). cls prop = c) (properties self))"

text \<open>The operators of a result whatever its shape, and the items of a result that is a dict.\<close>

fun operators :: "'op ListOrDictType \<Rightarrow> 'op list" where
  "operators (ListOps ops) = ops"
| "operators (DictOps ops) = map snd ops"

fun items :: "'op ListOrDictType \<Rightarrow> (string \<times> 'op) list" where
  "items (ListOps ops) = []"
| "items (DictOps ops) = ops"

section \<open>Example inputs\<close>

text \<open>
  A legacy result for the hydrogen molecule, with multiplicity 1, charge 0 and two atoms
  1.4 Bohr apart; the coefficient matrices and the remaining fields are stand-ins.
\<close>

definition example_qmol :: "(real, nat, unit) QMolecule" where
  "example_qmol =
     \<lparr>atom_symbol = [''H'', ''H''], atom_xyz = [[0, 0, 0], [0, 0, 1.4]],
      multiplicity = 1, molecular_charge = 0, mo_coeff = 0, mo_coeff_b = 0,
      origin_driver_name = ''PYSCF'', origin_driver_version = ''2.0'',
      origin_driver_config = [], other_fields = ()\<rparr>"

definition example_molecule :: "real Molecule" where
  "example_molecule =
     \<lparr>geometry = [(''H'', [0, 0, 0]), (''H'', [0, 0, 0.74])], multiplicity = 1, charge = 0\<rparr>"

definition example_energy :: "(nat, nat) property" where
  "example_energy = \<lparr>cls = ElectronicEnergy, data = ExternalData 1\<rparr>"

definition example_number :: "(nat, nat) property" where
  "example_number = \<lparr>cls = ParticleNumber, data = ExternalData 2\<rparr>"

definition example_magnetization :: "(nat, nat) property" where
  "example_magnetization = \<lparr>cls = Magnetization, data = ExternalData 3\<rparr>"

definition example_other :: "(nat, nat) property" where
  "example_other = \<lparr>cls = OtherProperty ''Custom'', data = ExternalData 4\<rparr>"

text \<open>
  What the constructors of the physical properties compute from the legacy result: a
  stand-in, once with every property present and once for a legacy result without
  dipole integrals.
\<close>

definition example_legacy :: "property_class \<Rightarrow> (real, nat, unit) QMolecule \<Rightarrow> nat option" where
  "example_legacy c qmol = Some (length (atom_symbol qmol))"

definition example_legacy_without_dipole ::
  "property_class \<Rightarrow> (real, nat, unit) QMolecule \<Rightarrow> nat option" where
  "example_legacy_without_dipole c qmol =
     (if c = ElectronicDipoleMoment then None else Some (length (atom_symbol qmol)))"

text \<open>An instance holding an energy, a particle number and a molecule.\<close>

definition example_result :: "(real, nat, nat) ElectronicStructureDriverResult" where
  "example_result =
     \<lparr>name = ''ElectronicStructureDriverResult'',
      properties = [(ElectronicEnergy, example_energy), (ParticleNumber, example_number)],
      molecule = Some example_molecule\<rparr>"

text \<open>The group of that instance, read back with the molecule first.\<close>

definition example_group :: "(real, nat, nat) h5group" where
  "example_group =
     [(MoleculeGroup, StoredMolecule example_molecule),
      (PropertyGroup ParticleNumber, StoredProperty example_number),
      (PropertyGroup ElectronicEnergy, StoredProperty example_energy)]"

text \<open>A group with no molecule in it.\<close>

definition example_group_without_molecule :: "(real, nat, nat) h5group" where
  "example_group_without_molecule =
     [(PropertyGroup ParticleNumber, StoredProperty example_number)]"

text \<open>A parent that already holds a group of the instance's name, with a magnetization.\<close>

definition example_used_parent :: "(real, nat, nat) h5parent" where
  "example_used_parent =
     [(''ElectronicStructureDriverResult'',
       [(PropertyGroup Magnetization, StoredProperty example_magnetization)])]"

text \<open>
  Members that all answer as second-quantized properties with one operator, a number,
  under the same key: the energy answers 1, every other member 2.
\<close>

definition example_opsL :: "(nat, nat) property \<Rightarrow> nat list" where
  "example_opsL prop = (if cls prop = ElectronicEnergy then [1] else [2])"

definition example_opsD :: "(nat, nat) property \<Rightarrow> (string \<times> nat) list" where
  "example_opsD prop = (if cls prop = ElectronicEnergy then [(''shared'', 1)] else [(''shared'', 2)])"

text \<open>
  Members that answer with one operator each, the number they hold, under the name of
  their own class; the basis transform and the metadata are no second-quantized
  properties.
\<close>

definition example_isSQP :: "(nat, nat) property \<Rightarrow> bool" where
  "example_isSQP prop = (cls prop \<noteq> ElectronicBasisTransform \<and> cls prop \<noteq> DriverMetadata)"

definition example_own_opsD :: "(nat, nat) property \<Rightarrow> (string \<times> nat) list" where
  "example_own_opsD prop =
     (if cls prop = ElectronicEnergy then [(''ElectronicEnergy'', 1)]
      else if cls prop = ParticleNumber then [(''ParticleNumber'', 2)]
      else [(''Custom'', 4)])"

definition example_own_opsL :: "(nat, nat) property \<Rightarrow> nat list" where
  "example_own_opsL prop = map snd (example_own_opsD prop)"

section \<open>Association lists filled by a loop\<close>

lemma update_fresh: "k \<notin> fst ` set al \<Longrightarrow> AList.update k v al = al @ [(k, v)]"
  by (induction al) auto

lemma update_entries:
  "(k', v') \<in> set (AList.update k v al) \<Longrightarrow> (k', v') = (k, v) \<or> (k', v') \<in> set al"
  by (induction al) (auto split: if_splits)

lemma foldl_update_fresh:
  "distinct (map key xs) \<Longrightarrow> key ` set xs \<inter> fst ` set acc = {} \<Longrightarrow>
   foldl (\<lambda>ret x. AList.update (key x) (val x) ret) acc xs = acc @ map (\<lambda>x. (key x, val x)) xs"
proof (induction xs arbitrary: acc)
  case Nil
  then show ?case by simp
next
  case (Cons x xs)
  from Cons.prems have fresh: "key x \<notin> fst ` set acc" by auto
  have step: "AList.update (key x) (val x) acc = acc @ [(key x, val x)]"
    using fresh by (rule update_fresh)
  have "key ` set xs \<inter> fst ` set (acc @ [(key x, val x)]) = {}"
    using Cons.prems by auto
  with Cons.IH[of "acc @ [(key x, val x)]"] Cons.prems step show ?case by simp
qed

lemma foldl_update_keys:
  "fst ` set (foldl (\<lambda>ret x. AList.update (key x) (val x) ret) acc xs) = fst ` set acc \<union> key ` set xs"
  by (induction xs arbitrary: acc) (auto simp: dom_update)

lemma foldl_update_distinct:
  "distinct (map fst acc) \<Longrightarrow>
   distinct (map fst (foldl (\<lambda>ret x. AList.update (key x) (val x) ret) acc xs))"
  by (induction xs arbitrary: acc) (auto simp: distinct_update)

lemma foldl_update_entries:
  "(k, v) \<in> set (foldl (\<lambda>ret x. AList.update (key x) (val x) ret) acc xs) \<Longrightarrow>
   (k, v) \<in> set acc \<or> (\<exists>x\<in>set xs. k = key x \<and> v = val x)"
proof (induction xs arbitrary: acc)
  case Nil
  then show ?case by simp
next
  case (Cons x xs)
  from Cons.IH[of "AList.update (key x) (val x) acc"] Cons.prems
  have "(k, v) \<in> set (AList.update (key x) (val x) acc) \<or> (\<exists>y\<in>set xs. k = key y \<and> v = val y)"
    by simp
  then show ?case using update_entries[of k v "key x" "val x" acc] by auto
qed

section \<open>The invariant of the collection\<close>

lemma well_formed_init: "well_formed ElectronicStructureDriverResult_init"
  by (simp add: well_formed_def ElectronicStructureDriverResult_init_def)

lemma well_formed_add_property:
  assumes "well_formed self"
  shows "well_formed (add_property self p)"
proof (cases p)
  case None
  with assms show ?thesis by simp
next
  case (Some member)
  have "distinct (map fst (AList.update (cls member) member (properties self)))"
    using assms by (simp add: well_formed_def distinct_update)
  moreover have "\<forall>e\<in>set (AList.update (cls member) member (properties self)). cls (snd e) = fst e"
    using assms update_entries[of _ _ "cls member" member "properties self"]
    by (fastforce simp: well_formed_def list_all_iff)
  ultimately show ?thesis
    by (simp add: Some well_formed_def list_all_iff case_prod_beta)
qed

lemma add_property_molecule: "molecule (add_property self p) = molecule self"
  by (cases p) simp_all

lemma well_formed_from_legacy_driver_result:
  "\<exists>ret. from_legacy_driver_result legacy BOHR (IsQMolecule qmol) = Inr ret \<and> well_formed ret"
proof -
  have wf: "\<And>self p. well_formed self \<Longrightarrow> well_formed (add_property self p)"
    by (rule well_formed_add_property)
  have upd: "\<And>self m. well_formed self \<Longrightarrow> well_formed (self\<lparr>molecule := m\<rparr>)"
    by (simp add: well_formed_def)
  show ?thesis
    unfolding from_legacy_driver_result_def Let_def
    by (simp del: add_property.simps) (intro wf upd well_formed_init)
qed

lemma well_formed_iter:
  "well_formed self \<Longrightarrow> map cls (iter self) = map fst (properties self)"
  by (auto simp: well_formed_def iter_def list_all_iff)

lemma well_formed_entries:
  "well_formed self \<Longrightarrow> properties self = map (\<lambda>prop. (cls prop, prop)) (iter self)"
  by (auto simp: well_formed_def iter_def list_all_iff intro!: nth_equalityI map_idI[symmetric])

section \<open>The restored collection and the loop of \<^verbatim>\<open>from_hdf5\<close>\<close>

lemma restored_distinct:
  "distinct (map fst (GroupedElectronicProperty_from_hdf5 g))"
  unfolding GroupedElectronicProperty_from_hdf5_def
  by (rule foldl_update_distinct) simp

lemma restored_entries:
  "(k, obj) \<in> set (GroupedElectronicProperty_from_hdf5 g) \<Longrightarrow>
   k = storable_class obj \<and> obj \<in> snd ` set g"
  unfolding GroupedElectronicProperty_from_hdf5_def
  using foldl_update_entries[of k obj storable_class "\<lambda>x. x" "[]" "map snd g"] by auto

lemma restored_classes:
  "map storable_class (map snd (GroupedElectronicProperty_from_hdf5 g)) =
   map fst (GroupedElectronicProperty_from_hdf5 g)"
proof -
  have "\<forall>e\<in>set (GroupedElectronicProperty_from_hdf5 g). storable_class (snd e) = fst e"
    using restored_entries[of _ _ g] by (metis prod.collapse)
  then show ?thesis by simp
qed

lemma restored_distinct_classes:
  "distinct (map storable_class (map snd (GroupedElectronicProperty_from_hdf5 g)))"
  unfolding restored_classes by (rule restored_distinct)

lemma restored_keyed:
  assumes d: "distinct (map fst g)" and k: "\<forall>e\<in>set g. fst e = storable_class (snd e)"
  shows "GroupedElectronicProperty_from_hdf5 g = g"
proof -
  have eq: "map storable_class (map snd g) = map fst g" using k by simp
  have "foldl (\<lambda>ret x. AList.update (storable_class x) x ret) [] (map snd g) =
        [] @ map (\<lambda>x. (storable_class x, x)) (map snd g)"
    by (rule foldl_update_fresh) (simp_all only: eq d list.set image_empty Int_empty_right)
  also have "\<dots> = g"
  proof -
    have "map (\<lambda>e. (storable_class (snd e), snd e)) g = g"
      by (rule map_idI) (simp add: k[rule_format, symmetric])
    then show ?thesis by (simp add: comp_def)
  qed
  finally show ?thesis by (simp add: GroupedElectronicProperty_from_hdf5_def)
qed

lemma loop_properties:
  "properties (foldl from_hdf5_step ret objs) =
   foldl (\<lambda>ps prop. AList.update (cls prop) prop ps) (properties ret) (stored_properties objs)"
proof (induction objs arbitrary: ret)
  case Nil
  then show ?case by simp
next
  case (Cons obj objs)
  then show ?case by (cases obj) simp_all
qed

lemma loop_molecule:
  "molecule (foldl from_hdf5_step ret objs) =
   (case molecule_assignments objs of
      [] \<Rightarrow> molecule ret
    | mol # mols \<Rightarrow> Some (last (mol # mols)))"
proof (induction objs arbitrary: ret)
  case Nil
  then show ?case by simp
next
  case (Cons obj objs)
  then show ?case
    by (cases obj) (simp_all add: split: list.splits)
qed

lemma stored_properties_classes:
  "map (PropertyGroup \<circ> cls) (stored_properties objs) =
   filter (\<lambda>k. k \<noteq> MoleculeGroup) (map storable_class objs)"
  by (induction objs rule: stored_properties.induct) simp_all

lemma stored_properties_distinct:
  assumes "distinct (map storable_class objs)"
  shows "distinct (map cls (stored_properties objs))"
proof -
  have "distinct (map (PropertyGroup \<circ> cls) (stored_properties objs))"
    unfolding stored_properties_classes using assms by (rule distinct_filter)
  then have "distinct (map PropertyGroup (map cls (stored_properties objs)))" by simp
  then show ?thesis by (rule distinct_map[THEN iffD1, THEN conjunct1])
qed

lemma molecule_assignments_classes:
  "map (\<lambda>mol. MoleculeGroup) (molecule_assignments objs) =
   filter (\<lambda>k. k = MoleculeGroup) (map storable_class objs)"
  by (induction objs rule: molecule_assignments.induct) simp_all

lemma molecule_assignments_once:
  assumes "distinct (map storable_class objs)"
  shows "length (molecule_assignments objs) \<le> 1"
proof -
  have d: "distinct (map (\<lambda>mol. MoleculeGroup) (molecule_assignments objs))"
    unfolding molecule_assignments_classes using assms by (rule distinct_filter)
  show ?thesis
  proof (cases "molecule_assignments objs")
    case Nil
    then show ?thesis by simp
  next
    case (Cons mol mols)
    with d have "mols = []" by (cases mols) simp_all
    with Cons show ?thesis by simp
  qed
qed

lemma stored_properties_set:
  "p \<in> set (stored_properties objs) \<longleftrightarrow> StoredProperty p \<in> set objs"
  by (induction objs rule: stored_properties.induct) auto

lemma molecule_assignments_set:
  "mol \<in> set (molecule_assignments objs) \<longleftrightarrow> StoredMolecule mol \<in> set objs"
  by (induction objs rule: molecule_assignments.induct) auto

lemma from_hdf5_properties:
  "properties (from_hdf5 g) =
   map (\<lambda>prop. (cls prop, prop))
     (stored_properties (map snd (GroupedElectronicProperty_from_hdf5 g)))"
proof -
  let ?objs = "map snd (GroupedElectronicProperty_from_hdf5 g)"
  have "properties (from_hdf5 g) =
        foldl (\<lambda>ps prop. AList.update (cls prop) prop ps) [] (stored_properties ?objs)"
    by (simp add: from_hdf5_def Let_def loop_properties ElectronicStructureDriverResult_init_def)
  also have "\<dots> = [] @ map (\<lambda>prop. (cls prop, prop)) (stored_properties ?objs)"
    by (rule foldl_update_fresh)
      (simp_all add: stored_properties_distinct[OF restored_distinct_classes])
  finally show ?thesis by simp
qed

lemma from_hdf5_molecule:
  "molecule (from_hdf5 g) =
   (case molecule_assignments (map snd (GroupedElectronicProperty_from_hdf5 g)) of
      [] \<Rightarrow> None
    | mol # mols \<Rightarrow> Some mol)"
proof -
  let ?objs = "map snd (GroupedElectronicProperty_from_hdf5 g)"
  have m: "molecule (from_hdf5 g) =
      (case molecule_assignments ?objs of [] \<Rightarrow> None | mol # mols \<Rightarrow> Some (last (mol # mols)))"
    by (simp add: from_hdf5_def Let_def loop_molecule ElectronicStructureDriverResult_init_def
        cong: list.case_cong)
  show ?thesis
  proof (cases "molecule_assignments ?objs")
    case Nil
    with m show ?thesis by simp
  next
    case (Cons mol mols)
    with molecule_assignments_once[OF restored_distinct_classes, of g] have "mols = []" by simp
    with m Cons show ?thesis by simp
  qed
qed

lemma from_hdf5_well_formed: "well_formed (from_hdf5 g)"
  using stored_properties_distinct[OF restored_distinct_classes, of g]
  by (simp add: well_formed_def from_hdf5_properties comp_def list_all_iff)

section \<open>What \<^verbatim>\<open>to_hdf5\<close> writes\<close>

lemma written_group:
  assumes "well_formed self"
  shows "foldl (\<lambda>g prop. Property_to_hdf5 prop g) [] (iter self) =
         map (\<lambda>prop. (PropertyGroup (cls prop), StoredProperty prop)) (iter self)"
proof -
  have "distinct (map PropertyGroup (map cls (iter self)))"
    using assms by (simp add: well_formed_iter well_formed_def distinct_map inj_on_def)
  then have d: "distinct (map (\<lambda>prop. PropertyGroup (cls prop)) (iter self))"
    by (simp add: comp_def)
  have "foldl (\<lambda>ret x. AList.update (PropertyGroup (cls x)) (StoredProperty x) ret) [] (iter self) =
        [] @ map (\<lambda>x. (PropertyGroup (cls x), StoredProperty x)) (iter self)"
    using d by (rule foldl_update_fresh) simp
  then show ?thesis by (simp add: Property_to_hdf5_def)
qed

lemma require_group_update: "require_group (AList.update n grp parent) n = grp"
  by (simp add: require_group_def update_conv')

lemma to_hdf5_group:
  assumes wf: "well_formed self" and mol: "molecule self = Some mol"
    and fresh: "require_group parent (name self) = []"
  shows "fst (to_hdf5 self parent) = Inr ()"
    and "require_group (snd (to_hdf5 self parent)) (name self) =
         map (\<lambda>prop. (PropertyGroup (cls prop), StoredProperty prop)) (iter self)
           @ [(MoleculeGroup, StoredMolecule mol)]"
proof -
  let ?grp = "map (\<lambda>prop. (PropertyGroup (cls prop), StoredProperty prop)) (iter self)"
  have p1: "GroupedProperty_to_hdf5 self parent = AList.update (name self) ?grp parent"
    by (simp add: GroupedProperty_to_hdf5_def Let_def fresh written_group[OF wf])
  have "MoleculeGroup \<notin> fst ` set ?grp" by auto
  then have m: "Molecule_to_hdf5 mol ?grp = ?grp @ [(MoleculeGroup, StoredMolecule mol)]"
    unfolding Molecule_to_hdf5_def by (rule update_fresh)
  show "fst (to_hdf5 self parent) = Inr ()"
    by (simp add: to_hdf5_def Let_def mol)
  show "require_group (snd (to_hdf5 self parent)) (name self) = ?grp @ [(MoleculeGroup, StoredMolecule mol)]"
    by (simp add: to_hdf5_def Let_def mol p1 require_group_update m)
qed

section \<open>Persistence: the claims\<close>

text \<open>
  C1. Round trip. With \<^verbatim>\<open>molecule\<close> unset \<^verbatim>\<open>to_hdf5\<close> raises, and a parent
  that already holds a group of the instance's name keeps its old members, so the claim
  does not hold for every instance and every group. It holds for every instance whose
  molecule is set, written into a parent that holds nothing under the instance's name:
  \<^verbatim>\<open>to_hdf5\<close> succeeds, and \<^verbatim>\<open>from_hdf5\<close> of the group it wrote, its entries read in any
  order, yields the same molecule and the same set of properties with the same values.
\<close>

theorem to_hdf5_from_hdf5_round_trip:
  assumes wf: "well_formed self" and mol: "molecule self = Some mol"
    and fresh: "require_group parent (name self) = []"
    and read: "set g = set (require_group (snd (to_hdf5 self parent)) (name self))"
              "distinct (map fst g)"
  shows "fst (to_hdf5 self parent) = Inr ()
     \<and> molecule (from_hdf5 g) = molecule self
     \<and> set (properties (from_hdf5 g)) = set (properties self)
     \<and> get_property (from_hdf5 g) = get_property self"
proof -
  let ?grp = "map (\<lambda>prop. (PropertyGroup (cls prop), StoredProperty prop)) (iter self)"
  have sg: "set g = set ?grp \<union> {(MoleculeGroup, StoredMolecule mol)}"
    using read(1) to_hdf5_group(2)[OF wf mol fresh] by simp
  then have keyed: "\<forall>e\<in>set g. fst e = storable_class (snd e)" by auto
  have r: "GroupedElectronicProperty_from_hdf5 g = g"
    using read(2) keyed by (rule restored_keyed)
  have objs: "set (map snd g) = StoredProperty ` set (iter self) \<union> {StoredMolecule mol}"
    using sg by (auto simp: image_iff)
  have "set (stored_properties (map snd g)) = set (iter self)"
    using objs by (auto simp: stored_properties_set simp del: set_map)
  then have ps: "set (properties (from_hdf5 g)) = set (properties self)"
    by (simp add: from_hdf5_properties r well_formed_entries[OF wf])
  have dm: "distinct (map storable_class (map snd g))"
    using keyed read(2) by (simp cong: map_cong)
  have "set (molecule_assignments (map snd g)) = {mol}"
    using objs by (auto simp: molecule_assignments_set simp del: set_map)
  with molecule_assignments_once[OF dm] have "molecule_assignments (map snd g) = [mol]"
    by (cases "molecule_assignments (map snd g)") auto
  then have ml: "molecule (from_hdf5 g) = molecule self"
    by (simp add: from_hdf5_molecule r mol)
  have "distinct (map fst (properties (from_hdf5 g)))"
    using stored_properties_distinct[OF dm] by (simp add: from_hdf5_properties r comp_def)
  moreover have "distinct (map fst (properties self))" using wf by (simp add: well_formed_def)
  ultimately have "map_of (properties (from_hdf5 g)) = map_of (properties self)"
    using ps by (simp add: map_of_inject_set)
  then have "get_property (from_hdf5 g) = get_property self"
    by (auto simp: get_property_def fun_eq_iff)
  with to_hdf5_group(1)[OF wf mol fresh] ml ps show ?thesis by simp
qed

theorem to_hdf5_from_hdf5_round_trip_witness:
  "fst (to_hdf5 example_result []) = Inr ()
   \<and> molecule (from_hdf5 example_group) = molecule example_result
   \<and> set (properties (from_hdf5 example_group)) = set (properties example_result)
   \<and> get_property (from_hdf5 example_group) = get_property example_result"
proof (rule to_hdf5_from_hdf5_round_trip)
  show "well_formed example_result"
    by (simp add: well_formed_def example_result_def example_energy_def example_number_def)
  show "molecule example_result = Some example_molecule"
    by (simp add: example_result_def)
  show "require_group [] (name example_result) = []"
    by (simp add: require_group_def)
  show "set example_group = set (require_group (snd (to_hdf5 example_result [])) (name example_result))"
    by (auto simp add: example_group_def to_hdf5_def GroupedProperty_to_hdf5_def Let_def
        require_group_def iter_def example_result_def Property_to_hdf5_def Molecule_to_hdf5_def
        example_energy_def example_number_def)
  show "distinct (map fst example_group)"
    by (simp add: example_group_def)
qed

theorem to_hdf5_from_hdf5_no_round_trip:
  "fst (to_hdf5 (example_result\<lparr>molecule := None\<rparr>) []) = Inl (AttributeError ''to_hdf5'')
   \<and> fst (to_hdf5 example_result example_used_parent) = Inr ()
   \<and> get_property example_result Magnetization = None
   \<and> get_property
        (from_hdf5 (require_group (snd (to_hdf5 example_result example_used_parent))
           (name example_result)))
        Magnetization = Some example_magnetization"
  by (simp add: to_hdf5_def GroupedProperty_to_hdf5_def Let_def require_group_def iter_def
      example_result_def example_used_parent_def Property_to_hdf5_def Molecule_to_hdf5_def
      example_energy_def example_number_def example_magnetization_def get_property_def
      from_hdf5_def GroupedElectronicProperty_from_hdf5_def
      ElectronicStructureDriverResult_init_def)

text \<open>
  C10. \<^verbatim>\<open>to_hdf5\<close> succeeds only when \<^verbatim>\<open>molecule\<close> is set: with
  \<^verbatim>\<open>molecule\<close> unset it raises when it delegates to the molecule (line 68), after the
  members have been written by line 66; with \<^verbatim>\<open>molecule\<close> set it does not raise.
\<close>

theorem to_hdf5_requires_molecule:
  "(molecule self = None \<longrightarrow>
      to_hdf5 self parent = (Inl (AttributeError ''to_hdf5''), GroupedProperty_to_hdf5 self parent))
   \<and> (molecule self \<noteq> None \<longrightarrow> fst (to_hdf5 self parent) = Inr ())"
  by (auto simp add: to_hdf5_def Let_def split: option.splits)

theorem to_hdf5_requires_molecule_witness:
  "to_hdf5 (example_result\<lparr>molecule := None\<rparr>) [] =
     (Inl (AttributeError ''to_hdf5''),
      [(''ElectronicStructureDriverResult'',
        [(PropertyGroup ElectronicEnergy, StoredProperty example_energy),
         (PropertyGroup ParticleNumber, StoredProperty example_number)])])
   \<and> fst (to_hdf5 example_result []) = Inr ()"
proof
  have unset: "molecule (example_result\<lparr>molecule := None\<rparr>) = None" by simp
  have written: "GroupedProperty_to_hdf5 (example_result\<lparr>molecule := None\<rparr>) [] =
      [(''ElectronicStructureDriverResult'',
        [(PropertyGroup ElectronicEnergy, StoredProperty example_energy),
         (PropertyGroup ParticleNumber, StoredProperty example_number)])]"
    by (simp add: GroupedProperty_to_hdf5_def Let_def require_group_def iter_def
        example_result_def Property_to_hdf5_def example_energy_def example_number_def)
  from to_hdf5_requires_molecule[of "example_result\<lparr>molecule := None\<rparr>" "[]"] unset
  have "to_hdf5 (example_result\<lparr>molecule := None\<rparr>) [] =
      (Inl (AttributeError ''to_hdf5''), GroupedProperty_to_hdf5 (example_result\<lparr>molecule := None\<rparr>) [])"
    by blast
  then show "to_hdf5 (example_result\<lparr>molecule := None\<rparr>) [] =
     (Inl (AttributeError ''to_hdf5''),
      [(''ElectronicStructureDriverResult'',
        [(PropertyGroup ElectronicEnergy, StoredProperty example_energy),
         (PropertyGroup ParticleNumber, StoredProperty example_number)])])"
    by (simp only: written)
  have "molecule example_result \<noteq> None" by (simp add: example_result_def)
  with to_hdf5_requires_molecule[of example_result "[]"]
  show "fst (to_hdf5 example_result []) = Inr ()" by blast
qed

text \<open>
  C8. When the restored collection holds no molecule-typed entry,
  \<^verbatim>\<open>from_hdf5\<close> returns an instance whose \<^verbatim>\<open>molecule\<close> is \<open>None\<close> (it has no failing
  branch); the property collection of the result is exactly the entries that are not
  molecules, in order, so every such entry can be looked up under its class.
\<close>

theorem from_hdf5_without_molecule:
  "((\<forall>mol. StoredMolecule mol \<notin> snd ` set (GroupedElectronicProperty_from_hdf5 g)) \<longrightarrow>
      molecule (from_hdf5 g) = None)
   \<and> properties (from_hdf5 g) =
       map (\<lambda>prop. (cls prop, prop))
         (stored_properties (map snd (GroupedElectronicProperty_from_hdf5 g)))
   \<and> (\<forall>prop. StoredProperty prop \<in> snd ` set (GroupedElectronicProperty_from_hdf5 g) \<longrightarrow>
         get_property (from_hdf5 g) (cls prop) = Some prop)"
proof (intro conjI impI allI)
  let ?objs = "map snd (GroupedElectronicProperty_from_hdf5 g)"
  assume "\<forall>mol. StoredMolecule mol \<notin> snd ` set (GroupedElectronicProperty_from_hdf5 g)"
  then have "\<forall>mol. mol \<notin> set (molecule_assignments ?objs)"
    by (simp add: molecule_assignments_set)
  then have "molecule_assignments ?objs = []"
    by (cases "molecule_assignments ?objs") auto
  then show "molecule (from_hdf5 g) = None" by (simp add: from_hdf5_molecule)
next
  show "properties (from_hdf5 g) =
       map (\<lambda>prop. (cls prop, prop))
         (stored_properties (map snd (GroupedElectronicProperty_from_hdf5 g)))"
    by (rule from_hdf5_properties)
next
  fix p
  let ?objs = "map snd (GroupedElectronicProperty_from_hdf5 g)"
  assume "StoredProperty p \<in> snd ` set (GroupedElectronicProperty_from_hdf5 g)"
  then have "p \<in> set (stored_properties ?objs)"
    by (simp add: stored_properties_set)
  then have mem: "(cls p, p) \<in> set (properties (from_hdf5 g))"
    by (auto simp: from_hdf5_properties)
  have "distinct (map fst (properties (from_hdf5 g)))"
    using from_hdf5_well_formed[of g] by (simp add: well_formed_def)
  then show "get_property (from_hdf5 g) (cls p) = Some p"
    unfolding get_property_def using mem by (rule map_of_is_SomeI)
qed

theorem from_hdf5_without_molecule_witness:
  "molecule (from_hdf5 example_group_without_molecule) = None
   \<and> properties (from_hdf5 example_group_without_molecule) = [(ParticleNumber, example_number)]
   \<and> get_property (from_hdf5 example_group_without_molecule) ParticleNumber = Some example_number"
proof -
  have restored: "GroupedElectronicProperty_from_hdf5 example_group_without_molecule =
      [(PropertyGroup ParticleNumber, StoredProperty example_number)]"
    by (simp add: GroupedElectronicProperty_from_hdf5_def example_group_without_molecule_def
        example_number_def)
  have none: "\<forall>mol. StoredMolecule mol
      \<notin> snd ` set (GroupedElectronicProperty_from_hdf5 example_group_without_molecule)"
    by (simp add: restored)
  have some: "StoredProperty example_number
      \<in> snd ` set (GroupedElectronicProperty_from_hdf5 example_group_without_molecule)"
    by (simp add: restored)
  have c: "cls example_number = ParticleNumber" by (simp add: example_number_def)
  note inst = from_hdf5_without_molecule[of example_group_without_molecule]
  from inst none have "molecule (from_hdf5 example_group_without_molecule) = None" by blast
  moreover from inst have "properties (from_hdf5 example_group_without_molecule) =
      [(ParticleNumber, example_number)]"
    by (simp add: restored c)
  moreover from inst some
  have "get_property (from_hdf5 example_group_without_molecule) (cls example_number) =
      Some example_number" by blast
  ultimately show ?thesis by (simp only: c simp_thms)
qed

section \<open>The legacy adapter: the claims\<close>

lemma geometry_loop_eq:
  "geometry_loop BOHR geom rows =
   geom @ map (\<lambda>(atom, xyz). (atom, map (\<lambda>x. x * BOHR) xyz)) rows"
  by (induction rows arbitrary: geom) auto

lemma from_legacy_driver_result_molecule:
  "\<exists>ret. from_legacy_driver_result legacy BOHR (IsQMolecule qmol) = Inr ret
     \<and> molecule ret =
         Some \<lparr>geometry = map (\<lambda>(atom, xyz). (atom, map (\<lambda>x. x * BOHR) xyz))
                             (zip (atom_symbol qmol) (atom_xyz qmol)),
               multiplicity = QMolecule.multiplicity qmol, charge = molecular_charge qmol\<rparr>"
  by (simp add: from_legacy_driver_result_def Let_def geometry_loop_eq)

text \<open>
  C7. The field is not set exactly once by every deserialization: for a
  group with no molecule-typed entry the loop of \<^verbatim>\<open>from_hdf5\<close> never assigns it and it
  stays \<open>None\<close>. What holds: the initialiser leaves it \<open>None\<close>, \<^verbatim>\<open>add_property\<close> does not
  touch it, \<^verbatim>\<open>from_legacy_driver_result\<close> returns it set, and the loop of \<^verbatim>\<open>from_hdf5\<close>
  assigns it at most once, namely once for the molecule-typed entry of the restored
  collection if there is one.
\<close>

theorem molecule_assigned_at_most_once:
  "(\<exists>ret mol. from_legacy_driver_result legacy BOHR (IsQMolecule qmol) = Inr ret
       \<and> molecule ret = Some mol)
   \<and> length (molecule_assignments (map snd (GroupedElectronicProperty_from_hdf5 g))) \<le> 1
   \<and> molecule (from_hdf5 g) =
       (case molecule_assignments (map snd (GroupedElectronicProperty_from_hdf5 g)) of
          [] \<Rightarrow> None
        | mol # mols \<Rightarrow> Some mol)
   \<and> molecule (add_property self prop) = molecule self
   \<and> molecule ElectronicStructureDriverResult_init = None"
proof (intro conjI)
  show "\<exists>ret mol. from_legacy_driver_result legacy BOHR (IsQMolecule qmol) = Inr ret
      \<and> molecule ret = Some mol"
    using from_legacy_driver_result_molecule[of legacy BOHR qmol] by blast
  show "length (molecule_assignments (map snd (GroupedElectronicProperty_from_hdf5 g))) \<le> 1"
    using restored_distinct_classes by (rule molecule_assignments_once)
  show "molecule (from_hdf5 g) =
       (case molecule_assignments (map snd (GroupedElectronicProperty_from_hdf5 g)) of
          [] \<Rightarrow> None
        | mol # mols \<Rightarrow> Some mol)"
    by (rule from_hdf5_molecule)
  show "molecule (add_property self prop) = molecule self"
    by (rule add_property_molecule)
  show "molecule ElectronicStructureDriverResult_init = None"
    by (simp add: ElectronicStructureDriverResult_init_def)
qed

theorem from_hdf5_never_assigns_molecule:
  "molecule_assignments
     (map snd (GroupedElectronicProperty_from_hdf5 example_group_without_molecule)) = []
   \<and> molecule (from_hdf5 example_group_without_molecule) = None"
  by (simp add: GroupedElectronicProperty_from_hdf5_def example_group_without_molecule_def
      example_number_def from_hdf5_def ElectronicStructureDriverResult_init_def)

text \<open>
  C2. A legacy-conversion constructor yields no object where the legacy result lacks the
  data of its property, so not every \<^verbatim>\<open>QMolecule\<close> gives five physical properties: one
  without dipole integrals gives four. What holds for every \<^verbatim>\<open>QMolecule\<close>: the
  instance returned holds, each under its own class and in this order, those of the five
  physical properties whose constructor yields an object, then exactly one basis
  transform and exactly one metadata property, and its \<^verbatim>\<open>molecule\<close> is set; when all
  five constructors yield an object it holds exactly the five physical properties.
\<close>

theorem from_legacy_driver_result_members:
  "\<exists>ret. from_legacy_driver_result legacy BOHR (IsQMolecule qmol) = Inr ret
     \<and> map fst (properties ret) =
         filter (\<lambda>c. legacy c qmol \<noteq> None)
           [ElectronicEnergy, ParticleNumber, AngularMomentum, Magnetization,
            ElectronicDipoleMoment]
         @ [ElectronicBasisTransform, DriverMetadata]
     \<and> map (cls \<circ> snd) (properties ret) = map fst (properties ret)
     \<and> molecule ret \<noteq> None
     \<and> ((\<forall>c\<in>set [ElectronicEnergy, ParticleNumber, AngularMomentum, Magnetization,
                    ElectronicDipoleMoment]. legacy c qmol \<noteq> None) \<longrightarrow>
          map fst (properties ret) =
            [ElectronicEnergy, ParticleNumber, AngularMomentum, Magnetization,
             ElectronicDipoleMoment, ElectronicBasisTransform, DriverMetadata])"
  by (cases "legacy ElectronicEnergy qmol"; cases "legacy ParticleNumber qmol";
      cases "legacy AngularMomentum qmol"; cases "legacy Magnetization qmol";
      cases "legacy ElectronicDipoleMoment qmol")
    (simp_all add: from_legacy_driver_result_def Let_def
      ElectronicStructureDriverResult_init_def property_from_legacy_driver_result_def
      ElectronicBasisTransform_init_def DriverMetadata_init_def)

theorem from_legacy_driver_result_members_witness:
  "\<exists>ret. from_legacy_driver_result example_legacy 0.52917721092
       (IsQMolecule example_qmol :: (real, nat, unit, unit) LegacyDriverResult) = Inr ret
     \<and> map fst (properties ret) =
         [ElectronicEnergy, ParticleNumber, AngularMomentum, Magnetization,
          ElectronicDipoleMoment, ElectronicBasisTransform, DriverMetadata]
     \<and> map (cls \<circ> snd) (properties ret) =
         [ElectronicEnergy, ParticleNumber, AngularMomentum, Magnetization,
          ElectronicDipoleMoment, ElectronicBasisTransform, DriverMetadata]
     \<and> molecule ret \<noteq> None"
  using from_legacy_driver_result_members[of example_legacy "0.52917721092" example_qmol]
  by (fastforce simp: example_legacy_def)

theorem from_legacy_driver_result_without_dipole:
  "map_sum id (map fst \<circ> properties)
     (from_legacy_driver_result example_legacy_without_dipole 0.52917721092
        (IsQMolecule example_qmol :: (real, nat, unit, unit) LegacyDriverResult)) =
   Inr [ElectronicEnergy, ParticleNumber, AngularMomentum, Magnetization,
        ElectronicBasisTransform, DriverMetadata]"
  by (simp add: from_legacy_driver_result_def Let_def
      ElectronicStructureDriverResult_init_def property_from_legacy_driver_result_def
      ElectronicBasisTransform_init_def DriverMetadata_init_def
      example_legacy_without_dipole_def)

text \<open>
  C4. The geometry of the molecule that \<^verbatim>\<open>from_legacy_driver_result\<close> builds
  pairs each atom symbol with its legacy coordinates, each multiplied by \<open>BOHR\<close>; for a
  legacy result with two atoms it has length 2, and entry \<open>i\<close> holds the coordinates of
  atom \<open>i\<close> so scaled.
\<close>

theorem from_legacy_driver_result_geometry:
  "\<exists>ret mol. from_legacy_driver_result legacy BOHR (IsQMolecule qmol) = Inr ret
     \<and> molecule ret = Some mol
     \<and> geometry mol =
         map (\<lambda>(atom, xyz). (atom, map (\<lambda>x. x * BOHR) xyz))
           (zip (atom_symbol qmol) (atom_xyz qmol))
     \<and> (length (atom_symbol qmol) = 2 \<and> length (atom_xyz qmol) = 2 \<longrightarrow>
          length (geometry mol) = 2
          \<and> (\<forall>i<2. geometry mol ! i =
                (atom_symbol qmol ! i, map (\<lambda>x. x * BOHR) (atom_xyz qmol ! i))))"
  by (simp add: from_legacy_driver_result_def Let_def geometry_loop_eq)

theorem from_legacy_driver_result_geometry_witness:
  "\<exists>ret mol.
     from_legacy_driver_result example_legacy 0.52917721092
       (IsQMolecule example_qmol :: (real, nat, unit, unit) LegacyDriverResult) = Inr ret
     \<and> molecule ret = Some mol
     \<and> geometry mol = [(''H'', [0, 0, 0]), (''H'', [0, 0, 0.740848095288])]
     \<and> length (geometry mol) = 2"
proof -
  from from_legacy_driver_result_geometry[of example_legacy "0.52917721092" example_qmol]
  obtain ret mol where
    r: "from_legacy_driver_result example_legacy 0.52917721092
          (IsQMolecule example_qmol :: (real, nat, unit, unit) LegacyDriverResult) = Inr ret"
       "molecule ret = Some mol"
    and g: "geometry mol =
         map (\<lambda>(atom, xyz). (atom, map (\<lambda>x. x * 0.52917721092) xyz))
           (zip (atom_symbol example_qmol) (atom_xyz example_qmol))"
    and l: "length (atom_symbol example_qmol) = 2 \<and> length (atom_xyz example_qmol) = 2 \<longrightarrow>
          length (geometry mol) = 2
          \<and> (\<forall>i<2. geometry mol ! i =
                (atom_symbol example_qmol ! i,
                 map (\<lambda>x. x * 0.52917721092) (atom_xyz example_qmol ! i)))"
    by blast
  have "length (atom_symbol example_qmol) = 2 \<and> length (atom_xyz example_qmol) = 2"
    by (simp add: example_qmol_def)
  with l have len: "length (geometry mol) = 2" by blast
  from g have "geometry mol = [(''H'', [0, 0, 0]), (''H'', [0, 0, 0.740848095288])]"
    by (simp add: example_qmol_def)
  with r len show ?thesis by blast
qed

text \<open>
  C5. For a legacy input that is not a \<^verbatim>\<open>QMolecule\<close>,
  \<^verbatim>\<open>from_legacy_driver_result\<close> raises the invalid-input-type error of the validation,
  its first step, whatever the constructors of the properties would compute: no instance
  is returned.
\<close>

theorem from_legacy_driver_result_invalid_input:
  "from_legacy_driver_result legacy BOHR (IsWatsonHamiltonian w) = Inl QiskitNatureError"
  by (simp add: from_legacy_driver_result_def)

section \<open>The operator collector: the claims\<close>

lemma dict_update_alt:
  "dict_update ops other = foldl (\<lambda>d x. AList.update (fst x) (snd x) d) ops other"
  by (simp add: dict_update_def split_def)

lemma dict_update_distinct:
  "distinct (map fst ops) \<Longrightarrow> distinct (map fst (dict_update ops other))"
  unfolding dict_update_alt by (rule foldl_update_distinct)

lemma dict_update_keys:
  "fst ` set (dict_update ops other) = fst ` set ops \<union> fst ` set other"
  unfolding dict_update_alt by (rule foldl_update_keys)

lemma map_of_dict_update:
  "map_of (dict_update ops other) = map_of ops ++ map_of (rev other)"
proof (induction other arbitrary: ops)
  case Nil
  then show ?case by (simp add: dict_update_def)
next
  case (Cons x xs)
  obtain k v where x: "x = (k, v)" by (cases x)
  have step: "dict_update ops (x # xs) = dict_update (AList.update k v ops) xs"
    by (simp add: dict_update_def x)
  have "map_of (dict_update ops (x # xs)) = map_of (AList.update k v ops) ++ map_of (rev xs)"
    by (simp only: step Cons.IH)
  also have "\<dots> = (map_of ops)(k \<mapsto> v) ++ map_of (rev xs)"
    by (simp only: update_conv')
  also have "\<dots> = map_of ops ++ map_of (rev (x # xs))"
    by (auto simp: x fun_eq_iff map_add_def split: option.splits)
  finally show ?case .
qed

lemma map_of_rev_distinct:
  "distinct (map fst xs) \<Longrightarrow> map_of (rev xs) = map_of xs"
  by (rule map_of_inject_set[THEN iffD2]) (simp_all add: rev_map[symmetric])

text \<open>The loop of lines 171 to 174, from any dict \<open>acc\<close> collected so far.\<close>

lemma dict_loop_distinct:
  "distinct (map fst acc) \<Longrightarrow>
   distinct (map fst (foldl (\<lambda>ops prop. if \<not> isSQP prop then ops
       else dict_update ops (opsD prop)) acc props))"
  by (induction props arbitrary: acc) (simp_all add: dict_update_distinct)

lemma dict_loop_keys:
  "fst ` set (foldl (\<lambda>ops prop. if \<not> isSQP prop then ops
       else dict_update ops (opsD prop)) acc props) =
   fst ` set acc \<union> (\<Union>p\<in>{p \<in> set props. isSQP p}. fst ` set (opsD p))"
  by (induction props arbitrary: acc) (auto simp: dict_update_keys)

lemma dict_loop_skip:
  "\<forall>q\<in>set post. isSQP q \<longrightarrow> k \<notin> fst ` set (opsD q) \<Longrightarrow>
   map_of (foldl (\<lambda>ops prop. if \<not> isSQP prop then ops
       else dict_update ops (opsD prop)) acc post) k = map_of acc k"
proof (induction post arbitrary: acc)
  case Nil
  then show ?case by simp
next
  case (Cons q post)
  show ?case
  proof (cases "isSQP q")
    case False
    with Cons show ?thesis by simp
  next
    case True
    with Cons.prems have "k \<notin> fst ` set (opsD q)" by simp
    then have "map_of (rev (opsD q)) k = None"
      by (simp add: map_of_eq_None_iff)
    then have "map_of (dict_update acc (opsD q)) k = map_of acc k"
      by (simp add: map_of_dict_update map_add_def)
    with Cons True show ?thesis by simp
  qed
qed

text \<open>The loop of lines 157 to 167, from any list \<open>acc\<close> collected so far.\<close>

lemma list_loop_concat:
  "foldl (\<lambda>ops c. case g c of None \<Rightarrow> ops
                   | Some prop \<Rightarrow> if \<not> P prop then ops else ops @ f prop) acc cs =
   acc @ concat (map (\<lambda>c. case g c of None \<Rightarrow> []
                   | Some prop \<Rightarrow> if P prop then f prop else []) cs)"
  by (induction cs arbitrary: acc) (simp_all split: option.splits)

text \<open>
  C3. In list mode \<^verbatim>\<open>second_q_ops\<close> returns the operators of the members
  found under the five fixed classes, concatenated in the fixed order of the classes; a
  class with no member (or with a member that is no second-quantized property)
  contributes nothing. In mapping mode the keys of the returned dict are distinct.
\<close>

theorem second_q_ops_list_order_dict_keys:
  "second_q_ops isSQP opsL opsD False self =
     ListOps (concat (map (\<lambda>c. case get_property self c of
                                 None \<Rightarrow> []
                               | Some prop \<Rightarrow> if isSQP prop then opsL prop else [])
        [ElectronicEnergy, ParticleNumber, AngularMomentum, Magnetization, ElectronicDipoleMoment]))
   \<and> (\<exists>ops. second_q_ops isSQP opsL opsD True self = DictOps ops \<and> distinct (map fst ops))"
proof
  show "second_q_ops isSQP opsL opsD False self =
     ListOps (concat (map (\<lambda>c. case get_property self c of
                                 None \<Rightarrow> []
                               | Some prop \<Rightarrow> if isSQP prop then opsL prop else [])
        [ElectronicEnergy, ParticleNumber, AngularMomentum, Magnetization, ElectronicDipoleMoment]))"
    unfolding second_q_ops_def list_loop_concat by (simp add: second_q_ops_classes_def)
  have "distinct (map fst (foldl (\<lambda>ops prop. if \<not> isSQP prop then ops
       else dict_update ops (opsD prop)) [] (iter self)))"
    by (rule dict_loop_distinct) simp
  then show "\<exists>ops. second_q_ops isSQP opsL opsD True self = DictOps ops \<and> distinct (map fst ops)"
    by (simp add: second_q_ops_def)
qed

text \<open>
  C6. In mapping mode, when several members contribute the same key, the
  returned dict holds under it the value of the member iterated last: if a member that is
  a second-quantized property contributes \<open>v\<close> under \<open>k\<close> and no such member after it in
  the iteration contributes \<open>k\<close>, the result maps \<open>k\<close> to \<open>v\<close>.
\<close>

theorem second_q_ops_dict_last_write_wins:
  assumes "iter self = pre @ member # post"
    and "isSQP member"
    and "distinct (map fst (opsD member))"
    and "map_of (opsD member) k = Some v"
    and "\<forall>q\<in>set post. isSQP q \<longrightarrow> k \<notin> fst ` set (opsD q)"
  shows "map_of (items (second_q_ops isSQP opsL opsD True self)) k = Some v"
proof -
  let ?before = "foldl (\<lambda>ops prop. if \<not> isSQP prop then ops
       else dict_update ops (opsD prop)) [] pre"
  have "map_of (rev (opsD member)) k = Some v"
    using assms(3,4) by (simp add: map_of_rev_distinct)
  then have at_prop: "map_of (dict_update ?before (opsD member)) k = Some v"
    by (simp add: map_of_dict_update)
  have "items (second_q_ops isSQP opsL opsD True self) =
        foldl (\<lambda>ops prop. if \<not> isSQP prop then ops else dict_update ops (opsD prop))
          (dict_update ?before (opsD member)) post"
    using assms(1,2) by (simp add: second_q_ops_def)
  then show ?thesis using dict_loop_skip[OF assms(5)] at_prop by simp
qed

theorem second_q_ops_dict_last_write_wins_witness:
  "map_of (items (second_q_ops (\<lambda>prop. True) example_opsL example_opsD True example_result))
     ''shared'' = Some 2"
proof (rule second_q_ops_dict_last_write_wins[where pre = "[example_energy]"
      and member = example_number and post = "[]"])
  show "iter example_result = [example_energy] @ example_number # []"
    by (simp add: iter_def example_result_def)
  show "True" ..
  show "distinct (map fst (example_opsD example_number))"
    by (simp add: example_opsD_def)
  show "map_of (example_opsD example_number) ''shared'' = Some 2"
    by (simp add: example_opsD_def example_number_def)
  show "\<forall>q\<in>set []. True \<longrightarrow> ''shared'' \<notin> fst ` set (example_opsD q)"
    by simp
qed

lemma dict_loop_filter:
  "foldl (\<lambda>ops prop. if \<not> isSQP prop then ops
       else dict_update ops (opsD prop)) acc props =
   foldl dict_update acc (map opsD (filter isSQP props))"
  by (induction props arbitrary: acc) simp_all

lemma second_q_ops_list:
  "second_q_ops isSQP opsL opsD False self =
     ListOps (concat (map (\<lambda>c. case get_property self c of
                                 None \<Rightarrow> []
                               | Some prop \<Rightarrow> if isSQP prop then opsL prop else [])
        second_q_ops_classes))"
  unfolding second_q_ops_def list_loop_concat by simp

lemma get_property_add_property:
  "c \<noteq> cls member \<Longrightarrow> get_property (add_property self (Some member)) c = get_property self c"
  by (simp add: get_property_def update_conv')

lemma update_member: "(k, v) \<in> set (AList.update k v al)"
  by (induction al) auto

lemma iter_add_property: "member \<in> set (iter (add_property self (Some member)))"
  using update_member[of "cls member" member "properties self"]
  by (force simp: iter_def)

text \<open>
  C9. The two modes consult different sets of members. List mode looks up the five
  fixed classes only and takes the operators of those members found that are
  second-quantized properties, so a member outside the five classes never contributes.
  Mapping mode merges the dicts of all members that are second-quantized properties, in
  the order of iteration, so each of them contributes its keys, a member outside the
  five classes as well. Hence the operators returned can differ beyond the shape: an
  instance whose only member is a second-quantized property outside the five classes
  gives no operator in list mode and its operator in mapping mode.
\<close>

theorem second_q_ops_modes_differ:
  "second_q_ops isSQP opsL opsD False self =
     ListOps (concat (map (\<lambda>c. case get_property self c of
                                 None \<Rightarrow> []
                               | Some prop \<Rightarrow> if isSQP prop then opsL prop else [])
        [ElectronicEnergy, ParticleNumber, AngularMomentum, Magnetization, ElectronicDipoleMoment]))
   \<and> second_q_ops isSQP opsL opsD True self =
     DictOps (foldl dict_update [] (map opsD (filter isSQP (iter self))))
   \<and> ((\<forall>c\<in>set second_q_ops_classes. get_property self c = get_property other c) \<longrightarrow>
      second_q_ops isSQP opsL opsD False self = second_q_ops isSQP opsL opsD False other)
   \<and> (\<forall>prop\<in>set (iter self). isSQP prop \<longrightarrow>
        fst ` set (opsD prop) \<subseteq> fst ` set (items (second_q_ops isSQP opsL opsD True self)))
   \<and> (cls member \<notin> set second_q_ops_classes \<longrightarrow>
        second_q_ops isSQP opsL opsD False (add_property self (Some member)) =
        second_q_ops isSQP opsL opsD False self)
   \<and> (isSQP member \<longrightarrow>
        fst ` set (opsD member)
          \<subseteq> fst ` set (items (second_q_ops isSQP opsL opsD True (add_property self (Some member)))))
   \<and> (\<exists>outside. cls outside \<notin> set second_q_ops_classes \<and>
        operators (second_q_ops (\<lambda>prop. True) (\<lambda>prop. [op]) (\<lambda>prop. [(''op'', op)]) False
           (add_property ElectronicStructureDriverResult_init (Some outside))) = [] \<and>
        operators (second_q_ops (\<lambda>prop. True) (\<lambda>prop. [op]) (\<lambda>prop. [(''op'', op)]) True
           (add_property ElectronicStructureDriverResult_init (Some outside))) = [op])"
proof (intro conjI impI ballI)
  show "second_q_ops isSQP opsL opsD False self =
     ListOps (concat (map (\<lambda>c. case get_property self c of
                                 None \<Rightarrow> []
                               | Some prop \<Rightarrow> if isSQP prop then opsL prop else [])
        [ElectronicEnergy, ParticleNumber, AngularMomentum, Magnetization, ElectronicDipoleMoment]))"
    using second_q_ops_list[of isSQP opsL opsD self] by (simp add: second_q_ops_classes_def)
next
  show "second_q_ops isSQP opsL opsD True self =
     DictOps (foldl dict_update [] (map opsD (filter isSQP (iter self))))"
    by (simp add: second_q_ops_def dict_loop_filter)
next
  assume "\<forall>c\<in>set second_q_ops_classes. get_property self c = get_property other c"
  then show "second_q_ops isSQP opsL opsD False self = second_q_ops isSQP opsL opsD False other"
    by (simp add: second_q_ops_def second_q_ops_classes_def)
next
  fix p assume "p \<in> set (iter self)" "isSQP p"
  then show "fst ` set (opsD p) \<subseteq> fst ` set (items (second_q_ops isSQP opsL opsD True self))"
    by (auto simp: second_q_ops_def dict_loop_keys)
next
  assume out: "cls member \<notin> set second_q_ops_classes"
  have "\<forall>c\<in>set second_q_ops_classes.
      get_property (add_property self (Some member)) c = get_property self c"
    using out by (auto simp del: add_property.simps intro!: get_property_add_property)
  then show "second_q_ops isSQP opsL opsD False (add_property self (Some member)) =
        second_q_ops isSQP opsL opsD False self"
    unfolding second_q_ops_list by (simp cong: map_cong)
next
  assume "isSQP member"
  with iter_add_property[of member self]
  show "fst ` set (opsD member)
      \<subseteq> fst ` set (items (second_q_ops isSQP opsL opsD True (add_property self (Some member))))"
    by (auto simp del: add_property.simps simp: second_q_ops_def dict_loop_keys)
next
  let ?member = "\<lparr>cls = OtherProperty ''Other'', data = MetadataData [] [] []\<rparr>"
  have "cls ?member \<notin> set second_q_ops_classes \<and>
        operators (second_q_ops (\<lambda>prop. True) (\<lambda>prop. [op]) (\<lambda>prop. [(''op'', op)]) False
           (add_property ElectronicStructureDriverResult_init (Some ?member))) = [] \<and>
        operators (second_q_ops (\<lambda>prop. True) (\<lambda>prop. [op]) (\<lambda>prop. [(''op'', op)]) True
           (add_property ElectronicStructureDriverResult_init (Some ?member))) = [op]"
    by (simp add: second_q_ops_def second_q_ops_classes_def get_property_def
        iter_def ElectronicStructureDriverResult_init_def dict_update_def)
  then show "\<exists>outside. cls outside \<notin> set second_q_ops_classes \<and>
        operators (second_q_ops (\<lambda>prop. True) (\<lambda>prop. [op]) (\<lambda>prop. [(''op'', op)]) False
           (add_property ElectronicStructureDriverResult_init (Some outside))) = [] \<and>
        operators (second_q_ops (\<lambda>prop. True) (\<lambda>prop. [op]) (\<lambda>prop. [(''op'', op)]) True
           (add_property ElectronicStructureDriverResult_init (Some outside))) = [op]"
    by (rule exI)
qed

theorem second_q_ops_modes_differ_witness:
  "second_q_ops example_isSQP example_own_opsL example_own_opsD False
     (add_property example_result (Some example_other)) = ListOps [1, 2]
   \<and> second_q_ops example_isSQP example_own_opsL example_own_opsD True
     (add_property example_result (Some example_other)) =
       DictOps [(''ElectronicEnergy'', 1), (''ParticleNumber'', 2), (''Custom'', 4)]
   \<and> second_q_ops example_isSQP example_own_opsL example_own_opsD False
       (add_property example_result (Some example_other)) =
     second_q_ops example_isSQP example_own_opsL example_own_opsD False example_result
   \<and> fst ` set (example_own_opsD example_other)
       \<subseteq> fst ` set (items (second_q_ops example_isSQP example_own_opsL example_own_opsD True
             (add_property example_result (Some example_other))))"
proof (intro conjI)
  let ?r = "add_property example_result (Some example_other)"
  note at_r = second_q_ops_modes_differ[of example_isSQP example_own_opsL example_own_opsD ?r]
  note at_result = second_q_ops_modes_differ[of example_isSQP example_own_opsL example_own_opsD
      example_result _ example_other]
  have props: "properties ?r =
      [(ElectronicEnergy, example_energy), (ParticleNumber, example_number),
       (OtherProperty ''Custom'', example_other)]"
    by (simp add: example_result_def example_other_def)
  have lookups: "get_property ?r ElectronicEnergy = Some example_energy"
    "get_property ?r ParticleNumber = Some example_number"
    "get_property ?r AngularMomentum = None"
    "get_property ?r Magnetization = None"
    "get_property ?r ElectronicDipoleMoment = None"
    unfolding get_property_def props by simp_all
  have vals: "example_isSQP example_energy" "example_isSQP example_number"
    "example_isSQP example_other"
    "example_own_opsD example_energy = [(''ElectronicEnergy'', 1)]"
    "example_own_opsD example_number = [(''ParticleNumber'', 2)]"
    "example_own_opsD example_other = [(''Custom'', 4)]"
    by (simp_all add: example_isSQP_def example_own_opsD_def example_energy_def
        example_number_def example_other_def)
  show "second_q_ops example_isSQP example_own_opsL example_own_opsD False ?r = ListOps [1, 2]"
    unfolding at_r[THEN conjunct1]
    by (simp add: lookups vals example_own_opsL_def del: add_property.simps)
  show "second_q_ops example_isSQP example_own_opsL example_own_opsD True ?r =
       DictOps [(''ElectronicEnergy'', 1), (''ParticleNumber'', 2), (''Custom'', 4)]"
    unfolding at_r[THEN conjunct2, THEN conjunct1] iter_def props
    by (simp add: vals dict_update_def)
  have "cls example_other \<notin> set second_q_ops_classes"
    by (simp add: example_other_def second_q_ops_classes_def)
  with at_result[THEN conjunct2, THEN conjunct2, THEN conjunct2, THEN conjunct2, THEN conjunct1]
  show "second_q_ops example_isSQP example_own_opsL example_own_opsD False ?r =
     second_q_ops example_isSQP example_own_opsL example_own_opsD False example_result"
    by blast
  from at_result[THEN conjunct2, THEN conjunct2, THEN conjunct2, THEN conjunct2,
      THEN conjunct2, THEN conjunct1] vals(3)
  show "fst ` set (example_own_opsD example_other)
       \<subseteq> fst ` set (items (second_q_ops example_isSQP example_own_opsL example_own_opsD True ?r))"
    by blast
qed

end
